theory Spec2Isabelle
  imports Complex_Main
begin

section \<open>The referral and deposit ledger of \<open>main.py\<close>\<close>

text \<open>
  The accounting core of the bot is embedded as pure functions on an explicit ledger.
  The conventions of the embedding:
  \<^item> Python floats and SQLite \<open>REAL\<close> columns are idealised as \<open>real\<close>: arithmetic is
    exact, and NaN and infinities do not exist. \<open>round(x, n)\<close> is rounding to the nearest
    multiple of \<open>10 ^ -n\<close>, ties to the even one.
  \<^item> Python integers and SQLite \<open>INTEGER\<close> columns are \<open>int\<close>; the flag columns
    \<open>counted_for_referrer\<close> and \<open>has_deposited\<close> stay integers, as the code compares
    them with \<open>0\<close>.
  \<^item> The \<open>users\<close> table is a map from its primary key; \<open>deposits\<close> and
    \<open>withdrawals\<close> are lists of rows in insertion order, because the payout worker
    iterates over a \<open>SELECT\<close>.
  \<^item> \<open>int(time.time())\<close> is the parameter \<open>now\<close> of every function that reads the clock.
  \<^item> The environment configuration and \<open>launch_ts\<close> are the fields of a record \<open>config\<close>.
  \<^item> The chat transport (messages, buttons) is left out; the reply of a handler is
    its result value.
\<close>

subsection \<open>Configuration\<close>

record config =
  MIN_DEPOSIT :: real
  PAYOUT_SECONDS :: int
  PAYOUT_MULT_START :: real
  PAYOUT_MULT_MIN :: real
  PAYOUT_DECAY_PER_DAY :: real
  REF_BONUS_JOIN :: real
  REF_BONUS_DEPOSIT_PERCENT :: real
  MIN_WITHDRAW :: real
  MIN_COUNTED_REFERRALS_FOR_WITHDRAW :: int
  launch_ts :: int

text \<open>The defaults of the \<open>os.getenv\<close> calls, with the launch time \<open>t0\<close>.\<close>

definition default_config :: "int \<Rightarrow> config" where
  "default_config t0 =
     \<lparr>MIN_DEPOSIT = 5, PAYOUT_SECONDS = 24 * 3600, PAYOUT_MULT_START = 5,
      PAYOUT_MULT_MIN = 2, PAYOUT_DECAY_PER_DAY = 5 / 100, REF_BONUS_JOIN = 1,
      REF_BONUS_DEPOSIT_PERCENT = 20 / 100, MIN_WITHDRAW = 45,
      MIN_COUNTED_REFERRALS_FOR_WITHDRAW = 5, launch_ts = t0\<rparr>"

definition DEPOSIT_CHAINS :: "string list" where
  "DEPOSIT_CHAINS = [''SOL'', ''ERC20'', ''BEP20'', ''TRC20'']"

subsection \<open>Rounding\<close>

definition round_half_even :: "real \<Rightarrow> int" where
  "round_half_even x =
     (let f = \<lfloor>x\<rfloor>; d = x - of_int f in
      if d < 1 / 2 then f
      else if 1 / 2 < d then f + 1
      else if even f then f else f + 1)"

text \<open>Python's \<open>round(x, ndigits)\<close> on the idealised floats.\<close>

definition py_round :: "real \<Rightarrow> nat \<Rightarrow> real" where
  "py_round x ndigits = of_int (round_half_even (x * 10 ^ ndigits)) / 10 ^ ndigits"

subsection \<open>The multiplier\<close>

text \<open>
  \<open>floor((now - launch_ts) / 86400)\<close> is the floor of a true division, which is \<open>div\<close>
  on \<open>int\<close>.
\<close>

definition days_since_launch :: "config \<Rightarrow> int \<Rightarrow> int" where
  "days_since_launch cfg now = max 0 ((now - launch_ts cfg) div 86400)"

definition current_multiplier :: "config \<Rightarrow> int \<Rightarrow> real" where
  "current_multiplier cfg now =
     (let mult = PAYOUT_MULT_START cfg
                   - PAYOUT_DECAY_PER_DAY cfg * of_int (days_since_launch cfg now);
          mult = (if mult < PAYOUT_MULT_MIN cfg then PAYOUT_MULT_MIN cfg else mult)
      in py_round mult 4)"

subsection \<open>Tables\<close>

datatype status = PENDING | APPROVED | REJECTED | PAID

record user =
  username :: string
  balance :: real
  referred_by :: "int option"
  counted_for_referrer :: int
  counted_referrals :: int
  total_referrals :: int
  has_deposited :: int

record deposit =
  d_id :: int
  d_user_id :: int
  d_amount :: real
  chain :: string
  txid :: string
  d_ts :: int
  d_status :: status
  payout_mult :: real
  payout_ts :: int

record withdrawal =
  w_id :: int
  w_user_id :: int
  w_amount :: real
  network :: string
  address :: string
  w_ts :: int
  w_status :: status

record db =
  users :: "int \<rightharpoonup> user"
  deposits :: "deposit list"
  withdrawals :: "withdrawal list"

definition empty_db :: db where
  "empty_db = \<lparr>users = Map.empty, deposits = [], withdrawals = []\<rparr>"

text \<open>
  \<open>AUTOINCREMENT\<close>: the new row id is one more than the largest id of the table, and 1
  in an empty table (rows are never deleted).
\<close>

definition next_rowid :: "int list \<Rightarrow> int" where
  "next_rowid ids = fold max ids 0 + 1"

text \<open>\<open>UPDATE users SET ... WHERE user_id=?\<close> changes nothing when the row is missing.\<close>

definition update_user :: "int \<Rightarrow> (user \<Rightarrow> user) \<Rightarrow> db \<Rightarrow> db" where
  "update_user uid f s =
     (case users s uid of
        None \<Rightarrow> s
      | Some u \<Rightarrow> s\<lparr>users := (users s)(uid \<mapsto> f u)\<rparr>)"

definition update_deposit :: "int \<Rightarrow> (deposit \<Rightarrow> deposit) \<Rightarrow> db \<Rightarrow> db" where
  "update_deposit dep_id f s =
     s\<lparr>deposits := map (\<lambda>d. if d_id d = dep_id then f d else d) (deposits s)\<rparr>"

definition update_withdrawal :: "int \<Rightarrow> (withdrawal \<Rightarrow> withdrawal) \<Rightarrow> db \<Rightarrow> db" where
  "update_withdrawal req_id f s =
     s\<lparr>withdrawals := map (\<lambda>w. if w_id w = req_id then f w else w) (withdrawals s)\<rparr>"

subsection \<open>Database helpers\<close>

definition db_user :: "db \<Rightarrow> int \<Rightarrow> user option" where
  "db_user s uid = users s uid"

definition db_create_user :: "int \<Rightarrow> string \<Rightarrow> int option \<Rightarrow> db \<Rightarrow> db" where
  "db_create_user uid uname ref s =
     (let s1 = (case users s uid of
                  Some _ \<Rightarrow> s
                | None \<Rightarrow>
                    s\<lparr>users := (users s)(uid \<mapsto>
                        \<lparr>username = uname, balance = 0, referred_by = ref,
                         counted_for_referrer = 0, counted_referrals = 0,
                         total_referrals = 0, has_deposited = 0\<rparr>)\<rparr>)
      in case ref of
           None \<Rightarrow> s1
         | Some r \<Rightarrow>
             if r \<noteq> 0
             then update_user r (\<lambda>u. u\<lparr>total_referrals := total_referrals u + 1\<rparr>) s1
             else s1)"

definition db_update_username :: "int \<Rightarrow> string \<Rightarrow> db \<Rightarrow> db" where
  "db_update_username uid uname s = update_user uid (\<lambda>u. u\<lparr>username := uname\<rparr>) s"

definition db_add_balance :: "int \<Rightarrow> real \<Rightarrow> db \<Rightarrow> db" where
  "db_add_balance uid amount s = update_user uid (\<lambda>u. u\<lparr>balance := balance u + amount\<rparr>) s"

definition db_set_counted_for_referrer :: "int \<Rightarrow> db \<Rightarrow> db" where
  "db_set_counted_for_referrer uid s = update_user uid (\<lambda>u. u\<lparr>counted_for_referrer := 1\<rparr>) s"

definition db_inc_counted_referrals :: "int \<Rightarrow> int \<Rightarrow> db \<Rightarrow> db" where
  "db_inc_counted_referrals ref_id inc s =
     update_user ref_id (\<lambda>u. u\<lparr>counted_referrals := counted_referrals u + inc\<rparr>) s"

definition db_mark_deposited :: "int \<Rightarrow> db \<Rightarrow> db" where
  "db_mark_deposited uid s = update_user uid (\<lambda>u. u\<lparr>has_deposited := 1\<rparr>) s"

definition db_insert_deposit :: "int \<Rightarrow> int \<Rightarrow> real \<Rightarrow> string \<Rightarrow> string \<Rightarrow> db \<Rightarrow> int \<times> db" where
  "db_insert_deposit now uid amount ch tx s =
     (let rowid = next_rowid (map d_id (deposits s)) in
      (rowid,
       s\<lparr>deposits := deposits s @
           [\<lparr>d_id = rowid, d_user_id = uid, d_amount = amount, chain = ch, txid = tx,
             d_ts = now, d_status = PENDING, payout_mult = 0, payout_ts = 0\<rparr>]\<rparr>))"

definition db_get_deposit :: "db \<Rightarrow> int \<Rightarrow> deposit option" where
  "db_get_deposit s dep_id = find (\<lambda>d. d_id d = dep_id) (deposits s)"

definition db_approve_deposit :: "int \<Rightarrow> real \<Rightarrow> db \<Rightarrow> db" where
  "db_approve_deposit dep_id mult s =
     update_deposit dep_id (\<lambda>d. d\<lparr>d_status := APPROVED, payout_mult := mult\<rparr>) s"

definition db_reject_deposit :: "int \<Rightarrow> db \<Rightarrow> db" where
  "db_reject_deposit dep_id s = update_deposit dep_id (\<lambda>d. d\<lparr>d_status := REJECTED\<rparr>) s"

definition db_mark_deposit_paid :: "int \<Rightarrow> int \<Rightarrow> db \<Rightarrow> db" where
  "db_mark_deposit_paid now dep_id s =
     update_deposit dep_id (\<lambda>d. d\<lparr>d_status := PAID, payout_ts := now\<rparr>) s"

definition db_insert_withdrawal :: "int \<Rightarrow> int \<Rightarrow> real \<Rightarrow> string \<Rightarrow> string \<Rightarrow> db \<Rightarrow> int \<times> db" where
  "db_insert_withdrawal now uid amount net addr s =
     (let rowid = next_rowid (map w_id (withdrawals s)) in
      (rowid,
       s\<lparr>withdrawals := withdrawals s @
           [\<lparr>w_id = rowid, w_user_id = uid, w_amount = amount, network = net,
             address = addr, w_ts = now, w_status = PENDING\<rparr>]\<rparr>))"

definition db_get_withdrawal :: "db \<Rightarrow> int \<Rightarrow> withdrawal option" where
  "db_get_withdrawal s req_id = find (\<lambda>w. w_id w = req_id) (withdrawals s)"

definition db_update_withdrawal_status :: "int \<Rightarrow> status \<Rightarrow> db \<Rightarrow> db" where
  "db_update_withdrawal_status req_id st s = update_withdrawal req_id (\<lambda>w. w\<lparr>w_status := st\<rparr>) s"

subsection \<open>Business logic\<close>

definition handle_new_ref_join ::
  "config \<Rightarrow> int \<Rightarrow> int \<Rightarrow> db \<Rightarrow> (string \<times> real) option \<times> db" where
  "handle_new_ref_join cfg referrer_id new_user_id s =
     (case db_user s referrer_id of
        None \<Rightarrow> (None, s)
      | Some ref \<Rightarrow>
          (case db_user s new_user_id of
             None \<Rightarrow> (None, s)
           | Some newu \<Rightarrow>
               if counted_referrals ref < 3 \<and> counted_for_referrer newu = 0
               then (Some (''counted'', REF_BONUS_JOIN cfg),
                     db_add_balance referrer_id (REF_BONUS_JOIN cfg)
                       (db_inc_counted_referrals referrer_id 1
                         (db_set_counted_for_referrer new_user_id s)))
               else (Some (''queued'', 0), s)))"

definition handle_deposit_approved ::
  "config \<Rightarrow> int \<Rightarrow> int \<Rightarrow> db \<Rightarrow> (string \<times> real \<times> real) option \<times> db" where
  "handle_deposit_approved cfg now dep_id s =
     (case db_get_deposit s dep_id of
        None \<Rightarrow> (None, s)
      | Some dep \<Rightarrow>
          (let mult = current_multiplier cfg now;
               s1 = db_approve_deposit dep_id mult s;
               s2 = db_mark_deposited (d_user_id dep) s1
           in case db_user s2 (d_user_id dep) of
                None \<Rightarrow> (Some (''approved_no_ref'', 0, mult), s2)
              | Some u \<Rightarrow>
                  (case referred_by u of
                     None \<Rightarrow> (Some (''approved_no_ref'', 0, mult), s2)
                   | Some ref \<Rightarrow>
                       if ref \<noteq> 0
                       then (let s3 = (if counted_for_referrer u = 0
                                       then db_inc_counted_referrals ref 1
                                              (db_set_counted_for_referrer (d_user_id dep) s2)
                                       else s2);
                                 bonus = py_round (d_amount dep * REF_BONUS_DEPOSIT_PERCENT cfg) 6
                             in (Some (''approved_ref_bonus'', bonus, mult),
                                 db_add_balance ref bonus s3))
                       else (Some (''approved_no_ref'', 0, mult), s2))))"


subsection \<open>The payout worker\<close>

text \<open>
  \<open>payout_mult if payout_mult and payout_mult > 0 else current_multiplier()\<close>: the first
  test is Python's truth value of a float.
\<close>

definition use_mult :: "config \<Rightarrow> int \<Rightarrow> deposit \<Rightarrow> real" where
  "use_mult cfg now dep =
     (if payout_mult dep \<noteq> 0 \<and> payout_mult dep > 0 then payout_mult dep
      else current_multiplier cfg now)"

definition payout_amount :: "config \<Rightarrow> int \<Rightarrow> deposit \<Rightarrow> real" where
  "payout_amount cfg now dep = py_round (d_amount dep * use_mult cfg now dep) 6"

text \<open>The body of the \<open>for dep in rows\<close> loop.\<close>

definition pay_deposit :: "config \<Rightarrow> int \<Rightarrow> deposit \<Rightarrow> db \<Rightarrow> db" where
  "pay_deposit cfg now dep s =
     db_mark_deposit_paid now (d_id dep)
       (db_add_balance (d_user_id dep) (payout_amount cfg now dep) s)"

text \<open>The \<open>SELECT\<close> of the worker: the rows are fetched before any of them is paid.\<close>

definition select_matured :: "config \<Rightarrow> int \<Rightarrow> db \<Rightarrow> deposit list" where
  "select_matured cfg now s =
     (let cutoff = now - PAYOUT_SECONDS cfg in
      filter (\<lambda>d. d_status d = APPROVED \<and> payout_ts d = 0 \<and> d_ts d \<le> cutoff) (deposits s))"

text \<open>One pass of the \<open>while True\<close> loop of \<open>payout_worker\<close>, at the time \<open>now\<close>.\<close>

definition payout_sweep :: "config \<Rightarrow> int \<Rightarrow> db \<Rightarrow> db" where
  "payout_sweep cfg now s = fold (pay_deposit cfg now) (select_matured cfg now s) s"

text \<open>
  The worker never returns; its first passes, at the times the thread wakes up, are a
  fold over these times.
\<close>

definition payout_worker :: "config \<Rightarrow> int list \<Rightarrow> db \<Rightarrow> db" where
  "payout_worker cfg wakeups s = fold (payout_sweep cfg) wakeups s"

subsection \<open>Handlers\<close>

datatype error =
    NotRegistered
  | NotEligible
  | BelowMinimum
  | InsufficientReferrals
  | InsufficientBalance
  | DepositNotFound
  | RequestNotFound
  | InvalidChain
  | BelowMinDeposit
  | TypeError

definition cmd_start ::
  "config \<Rightarrow> int \<Rightarrow> string \<Rightarrow> int option \<Rightarrow> db \<Rightarrow> (string \<times> real) option \<times> db" where
  "cmd_start cfg uid uname refcode s =
     (let s1 = db_create_user uid uname refcode s;
          s2 = db_update_username uid uname s1
      in case refcode of
           None \<Rightarrow> (None, s2)
         | Some r \<Rightarrow> if r \<noteq> 0 then handle_new_ref_join cfg r uid s2 else (None, s2))"

text \<open>\<open>/deposit <amount> <chain> <txid>\<close>, with the chain already in upper case.\<close>

definition cmd_deposit_short ::
  "config \<Rightarrow> int \<Rightarrow> int \<Rightarrow> real \<Rightarrow> string \<Rightarrow> string \<Rightarrow> db \<Rightarrow> (error + int) \<times> db" where
  "cmd_deposit_short cfg now uid amount ch tx s =
     (if ch \<notin> set DEPOSIT_CHAINS then (Inl InvalidChain, s)
      else if amount < MIN_DEPOSIT cfg then (Inl BelowMinDeposit, s)
      else (case db_insert_deposit now uid amount ch tx s of
              (dep_id, s') \<Rightarrow> (Inr dep_id, s')))"

text \<open>The withdraw conversation: \<open>/withdraw\<close>, then the amount, the network, the address.\<close>

definition cmd_withdraw_start :: "db \<Rightarrow> int \<Rightarrow> error + unit" where
  "cmd_withdraw_start s uid =
     (case db_user s uid of
        None \<Rightarrow> Inl NotRegistered
      | Some row \<Rightarrow> if has_deposited row = 0 then Inl NotEligible else Inr ())"

definition withdraw_amount :: "config \<Rightarrow> db \<Rightarrow> int \<Rightarrow> real \<Rightarrow> error + real" where
  "withdraw_amount cfg s uid amount =
     (case db_user s uid of
        None \<Rightarrow> Inl TypeError
      | Some row \<Rightarrow>
          if balance row < MIN_WITHDRAW cfg then Inl BelowMinimum
          else if counted_referrals row < MIN_COUNTED_REFERRALS_FOR_WITHDRAW cfg
          then Inl InsufficientReferrals
          else if amount > balance row then Inl InsufficientBalance
          else Inr amount)"

definition withdraw_address ::
  "int \<Rightarrow> int \<Rightarrow> real \<Rightarrow> string \<Rightarrow> string \<Rightarrow> db \<Rightarrow> int \<times> db" where
  "withdraw_address now uid wd_amount wd_network addr s =
     db_insert_withdrawal now uid wd_amount wd_network addr s"

text \<open>
  A whole withdrawal request: the three handlers in the order of the conversation, on
  the ledger as it is when the request is made.
\<close>

definition withdraw_request ::
  "config \<Rightarrow> int \<Rightarrow> int \<Rightarrow> real \<Rightarrow> string \<Rightarrow> string \<Rightarrow> db \<Rightarrow> (error + int) \<times> db" where
  "withdraw_request cfg now uid amount net addr s =
     (case cmd_withdraw_start s uid of
        Inl e \<Rightarrow> (Inl e, s)
      | Inr _ \<Rightarrow>
          (case withdraw_amount cfg s uid amount of
             Inl e \<Rightarrow> (Inl e, s)
           | Inr wd_amount \<Rightarrow>
               (case withdraw_address now uid wd_amount net addr s of
                  (req_id, s') \<Rightarrow> (Inr req_id, s'))))"

text \<open>The admin callbacks, \<open>approve_deposit:<id>\<close> and its siblings.\<close>

datatype admin_cmd =
    approve_deposit int
  | reject_deposit int
  | approve_withdraw int
  | decline_withdraw int

datatype reply =
    DepositApproved "(string \<times> real \<times> real) option"
  | DepositRejected
  | WithdrawalPaid
  | WithdrawalDeclined

fun cb_admin :: "config \<Rightarrow> int \<Rightarrow> admin_cmd \<Rightarrow> db \<Rightarrow> (error + reply) \<times> db" where
  "cb_admin cfg now (approve_deposit depid) s =
     (case db_get_deposit s depid of
        None \<Rightarrow> (Inl DepositNotFound, s)
      | Some dep \<Rightarrow>
          (case handle_deposit_approved cfg now depid s of
             (res, s') \<Rightarrow> (Inr (DepositApproved res), s')))"
| "cb_admin cfg now (reject_deposit depid) s =
     (case db_get_deposit s depid of
        None \<Rightarrow> (Inl DepositNotFound, s)
      | Some dep \<Rightarrow> (Inr DepositRejected, db_reject_deposit depid s))"
| "cb_admin cfg now (approve_withdraw reqid) s =
     (case db_get_withdrawal s reqid of
        None \<Rightarrow> (Inl RequestNotFound, s)
      | Some row \<Rightarrow>
          (case users s (w_user_id row) of
             None \<Rightarrow> (Inl InsufficientBalance, s)
           | Some rr \<Rightarrow>
               if balance rr < w_amount row then (Inl InsufficientBalance, s)
               else (Inr WithdrawalPaid,
                     db_update_withdrawal_status reqid PAID
                       (update_user (w_user_id row)
                          (\<lambda>u. u\<lparr>balance := balance u - w_amount row\<rparr>) s))))"
| "cb_admin cfg now (decline_withdraw reqid) s =
     (case db_get_withdrawal s reqid of
        None \<Rightarrow> (Inl RequestNotFound, s)
      | Some row \<Rightarrow> (Inr WithdrawalDeclined, db_update_withdrawal_status reqid REJECTED s))"

subsection \<open>Sequences of referral events\<close>

text \<open>
  The two operations that can count a referral: a join (\<open>handle_new_ref_join\<close>) and a
  deposit approval at some time (\<open>handle_deposit_approved\<close>).
\<close>

datatype event = JoinEv int int | ApproveEv int int

fun step :: "config \<Rightarrow> event \<Rightarrow> db \<Rightarrow> db" where
  "step cfg (JoinEv referrer_id new_user_id) s =
     snd (handle_new_ref_join cfg referrer_id new_user_id s)"
| "step cfg (ApproveEv now dep_id) s = snd (handle_deposit_approved cfg now dep_id s)"

text \<open>The ledgers a sequence of events goes through, the first one included.\<close>

fun trace :: "config \<Rightarrow> db \<Rightarrow> event list \<Rightarrow> db list" where
  "trace cfg s [] = [s]"
| "trace cfg s (e # es) = s # trace cfg (step cfg e s) es"

definition counted :: "db \<Rightarrow> int \<Rightarrow> bool" where
  "counted s uid =
     (case users s uid of None \<Rightarrow> False | Some u \<Rightarrow> counted_for_referrer u \<noteq> 0)"

text \<open>How often the flag of \<open>uid\<close> goes from false to true along a list of ledgers.\<close>

fun flips :: "int \<Rightarrow> db list \<Rightarrow> nat" where
  "flips uid (s # s' # ss) =
     (if \<not> counted s uid \<and> counted s' uid then 1 else 0) + flips uid (s' # ss)"
| "flips uid ss = 0"

definition counted_referrals_of :: "db \<Rightarrow> int \<Rightarrow> int" where
  "counted_referrals_of s uid =
     (case users s uid of None \<Rightarrow> 0 | Some u \<Rightarrow> counted_referrals u)"

text \<open>The user an event may count, and the referrer whose counter it may increment.\<close>

fun subject :: "db \<Rightarrow> event \<Rightarrow> int option" where
  "subject s (JoinEv referrer_id new_user_id) = Some new_user_id"
| "subject s (ApproveEv now dep_id) = map_option d_user_id (db_get_deposit s dep_id)"

fun referrer_of :: "db \<Rightarrow> event \<Rightarrow> int option" where
  "referrer_of s (JoinEv referrer_id new_user_id) = Some referrer_id"
| "referrer_of s (ApproveEv now dep_id) =
     (case db_get_deposit s dep_id of
        None \<Rightarrow> None
      | Some dep \<Rightarrow>
          (case users s (d_user_id dep) of None \<Rightarrow> None | Some u \<Rightarrow> referred_by u))"

text \<open>
  The total by which the events made for \<open>uid\<close> raise the \<open>counted_referrals\<close> of the
  referrer they name.
\<close>

fun increments :: "config \<Rightarrow> int \<Rightarrow> db \<Rightarrow> event list \<Rightarrow> int" where
  "increments cfg uid s [] = 0"
| "increments cfg uid s (e # es) =
     (if subject s e = Some uid
      then (case referrer_of s e of
              None \<Rightarrow> 0
            | Some r \<Rightarrow> counted_referrals_of (step cfg e s) r - counted_referrals_of s r)
      else 0)
     + increments cfg uid (step cfg e s) es"

subsection \<open>Example ledgers\<close>

text \<open>
  The default configuration launched at time 0, and the scenarios of the specification:
  A (user 1) invites B, C, D and E (users 2 to 5); F (user 6), referred by A, deposits
  100 on day 20, when the multiplier is 4.0.
\<close>

definition cfg0 :: config where
  "cfg0 = default_config 0"

definition ledger_two :: db where
  "ledger_two =
     db_create_user 2 ''B'' (Some 1) (snd (cmd_start cfg0 1 ''A'' None empty_db))"

definition ledger_joined :: db where
  "ledger_joined =
     snd (cmd_start cfg0 5 ''E'' (Some 1)
       (snd (cmd_start cfg0 4 ''D'' (Some 1)
         (snd (cmd_start cfg0 3 ''C'' (Some 1)
           (snd (cmd_start cfg0 2 ''B'' (Some 1)
             (snd (cmd_start cfg0 1 ''A'' None empty_db)))))))))"

definition ledger_F_deposited :: db where
  "ledger_F_deposited =
     snd (cmd_deposit_short cfg0 (20 * 86400) 6 100 ''TRC20'' ''tx-f''
       (snd (cmd_start cfg0 6 ''F'' (Some 1) ledger_joined)))"

definition ledger_F_approved :: db where
  "ledger_F_approved =
     snd (cb_admin cfg0 (20 * 86400) (approve_deposit 1) ledger_F_deposited)"

text \<open>G (user 7) starts the bot with the own id as referral code, then deposits 100.\<close>

definition ledger_self :: db where
  "ledger_self =
     snd (cmd_deposit_short cfg0 0 7 100 ''SOL'' ''tx-g''
       (snd (cmd_start cfg0 7 ''G'' (Some 7) empty_db)))"

text \<open>A user with balance 50, five counted referrals and an approved deposit.\<close>

definition ledger_rich :: db where
  "ledger_rich =
     \<lparr>users = [1 \<mapsto> \<lparr>username = ''A'', balance = 50, referred_by = None,
                      counted_for_referrer = 0, counted_referrals = 5, total_referrals = 5,
                      has_deposited = 1\<rparr>],
      deposits = [], withdrawals = []\<rparr>"

text \<open>A's withdrawal request for \<open>amount\<close> at time 100, and the ledger after it is paid.\<close>

definition ledger_requested :: "real \<Rightarrow> db" where
  "ledger_requested amount =
     snd (withdraw_request cfg0 100 1 amount ''TRC20'' ''T-addr'' ledger_rich)"

definition ledger_paid :: db where
  "ledger_paid = snd (cb_admin cfg0 200 (approve_withdraw 1) (ledger_requested 20))"


section \<open>Rounding is monotone\<close>

lemma round_half_even_mono:
  assumes "x \<le> y"
  shows "round_half_even x \<le> round_half_even y"
proof (cases "\<lfloor>x\<rfloor> = \<lfloor>y\<rfloor>")
  case True
  with assms show ?thesis
    unfolding round_half_even_def Let_def by auto
next
  case False
  with assms have lt: "\<lfloor>x\<rfloor> < \<lfloor>y\<rfloor>"
    using floor_mono[of x y] by linarith
  have "round_half_even x \<le> \<lfloor>x\<rfloor> + 1"
    unfolding round_half_even_def Let_def by auto
  moreover have "\<lfloor>y\<rfloor> \<le> round_half_even y"
    unfolding round_half_even_def Let_def by auto
  ultimately show ?thesis using lt by linarith
qed

lemma py_round_mono: "x \<le> y \<Longrightarrow> py_round x n \<le> py_round y n"
  unfolding py_round_def
  by (intro divide_right_mono) (auto intro!: round_half_even_mono mult_right_mono)

section \<open>The multiplier function\<close>

lemma days_since_launch_mono:
  "now \<le> now' \<Longrightarrow> days_since_launch cfg now \<le> days_since_launch cfg now'"
  unfolding days_since_launch_def
  by (intro max.mono order_refl zdiv_mono1) auto

lemma days_since_launch_after:
  "launch_ts cfg \<le> now \<Longrightarrow> days_since_launch cfg now = (now - launch_ts cfg) div 86400"
  unfolding days_since_launch_def by (simp add: pos_imp_zdiv_nonneg_iff)

lemma current_multiplier_eq:
  "current_multiplier cfg now =
     py_round (max (PAYOUT_MULT_MIN cfg)
       (PAYOUT_MULT_START cfg
          - PAYOUT_DECAY_PER_DAY cfg * of_int (days_since_launch cfg now))) 4"
  unfolding current_multiplier_def Let_def by (simp add: max_def)

text \<open>
  Claim C6, as the code has it. From the launch time on, \<open>current_multiplier\<close> is
  \<open>max(MULT_MIN, MULT_START - DECAY_PER_DAY * floor((now - launch_ts) / 86400))\<close> rounded
  to 4 decimal places. At the launch time it is \<open>max(MULT_MIN, MULT_START)\<close> rounded,
  which is \<open>MULT_START\<close> when \<open>MULT_MIN \<le> MULT_START\<close> and \<open>MULT_START\<close> has at most 4
  decimals. It never falls below \<open>MULT_MIN\<close> rounded to 4 places, hence never below
  \<open>MULT_MIN\<close> when that has at most 4 decimals. It is non-increasing in \<open>now\<close> when the
  decay per day is not negative.
\<close>

theorem current_multiplier_spec:
  assumes "launch_ts cfg \<le> now"
  shows "current_multiplier cfg now =
           py_round (max (PAYOUT_MULT_MIN cfg)
             (PAYOUT_MULT_START cfg
                - PAYOUT_DECAY_PER_DAY cfg * of_int ((now - launch_ts cfg) div 86400))) 4
       \<and> current_multiplier cfg (launch_ts cfg)
           = py_round (max (PAYOUT_MULT_MIN cfg) (PAYOUT_MULT_START cfg)) 4
       \<and> (PAYOUT_MULT_MIN cfg \<le> PAYOUT_MULT_START cfg
            \<and> py_round (PAYOUT_MULT_START cfg) 4 = PAYOUT_MULT_START cfg \<longrightarrow>
            current_multiplier cfg (launch_ts cfg) = PAYOUT_MULT_START cfg)
       \<and> py_round (PAYOUT_MULT_MIN cfg) 4 \<le> current_multiplier cfg now
       \<and> (py_round (PAYOUT_MULT_MIN cfg) 4 = PAYOUT_MULT_MIN cfg \<longrightarrow>
            PAYOUT_MULT_MIN cfg \<le> current_multiplier cfg now)
       \<and> (0 \<le> PAYOUT_DECAY_PER_DAY cfg \<longrightarrow>
            (\<forall>now'. now \<le> now' \<longrightarrow>
               current_multiplier cfg now' \<le> current_multiplier cfg now))"
proof -
  have a: "current_multiplier cfg now =
           py_round (max (PAYOUT_MULT_MIN cfg)
             (PAYOUT_MULT_START cfg
                - PAYOUT_DECAY_PER_DAY cfg * of_int ((now - launch_ts cfg) div 86400))) 4"
    using assms by (simp add: current_multiplier_eq days_since_launch_after)
  have b: "current_multiplier cfg (launch_ts cfg)
           = py_round (max (PAYOUT_MULT_MIN cfg) (PAYOUT_MULT_START cfg)) 4"
    by (simp add: current_multiplier_eq days_since_launch_def)
  have b': "current_multiplier cfg (launch_ts cfg) = PAYOUT_MULT_START cfg"
    if "PAYOUT_MULT_MIN cfg \<le> PAYOUT_MULT_START cfg"
       "py_round (PAYOUT_MULT_START cfg) 4 = PAYOUT_MULT_START cfg"
    using that b by (simp add: max_def)
  have c: "py_round (PAYOUT_MULT_MIN cfg) 4 \<le> current_multiplier cfg now"
    unfolding current_multiplier_eq by (rule py_round_mono) simp
  have d: "current_multiplier cfg now' \<le> current_multiplier cfg now"
    if "0 \<le> PAYOUT_DECAY_PER_DAY cfg" "now \<le> now'" for now'
  proof -
    have "PAYOUT_DECAY_PER_DAY cfg * of_int (days_since_launch cfg now)
            \<le> PAYOUT_DECAY_PER_DAY cfg * of_int (days_since_launch cfg now')"
      using that days_since_launch_mono[of now now' cfg] by (intro mult_left_mono) auto
    then show ?thesis
      unfolding current_multiplier_eq by (intro py_round_mono max.mono) auto
  qed
  from a b b' c d show ?thesis by metis
qed

text \<open>
  The defaults (start 5.0, decay 0.05 per day, minimum 2.0), launched at time 0: the
  multiplier is 5 at the launch, 2 after 100 days, and not larger a day later.
\<close>

theorem current_multiplier_spec_witness:
  "current_multiplier (default_config 0) (100 * 86400) = 2
   \<and> current_multiplier (default_config 0) 0 = 5
   \<and> 2 \<le> current_multiplier (default_config 0) (100 * 86400)
   \<and> current_multiplier (default_config 0) (101 * 86400)
        \<le> current_multiplier (default_config 0) (100 * 86400)"
proof -
  let ?cfg = "default_config 0"
  have h: "launch_ts ?cfg \<le> 100 * 86400"
    by (simp add: default_config_def)
  have r5: "py_round (PAYOUT_MULT_START ?cfg) 4 = PAYOUT_MULT_START ?cfg"
    and r2: "py_round (PAYOUT_MULT_MIN ?cfg) 4 = PAYOUT_MULT_MIN ?cfg"
    and le: "PAYOUT_MULT_MIN ?cfg \<le> PAYOUT_MULT_START ?cfg"
    and dec: "0 \<le> PAYOUT_DECAY_PER_DAY ?cfg"
    by (simp_all add: default_config_def py_round_def round_half_even_def)
  note t = current_multiplier_spec [OF h]
  from t have "current_multiplier ?cfg (100 * 86400) = 2"
    by (simp add: default_config_def py_round_def round_half_even_def)
  moreover from t r5 le have "current_multiplier ?cfg 0 = 5"
    by (simp add: default_config_def)
  moreover from t r2 have "2 \<le> current_multiplier ?cfg (100 * 86400)"
    by (simp add: default_config_def)
  moreover from t dec
  have "\<forall>now'. 100 * 86400 \<le> now' \<longrightarrow>
          current_multiplier ?cfg now' \<le> current_multiplier ?cfg (100 * 86400)"
    by blast
  then have "current_multiplier ?cfg (101 * 86400) \<le> current_multiplier ?cfg (100 * 86400)"
    by simp
  ultimately show ?thesis by blast
qed

text \<open>
  Claim C6 as the spec words it fails for configurations the environment can supply.
  With \<open>PAYOUT_MULT_MIN = 2.00004\<close> the multiplier after 100 days is 2.0, below the
  minimum; with \<open>PAYOUT_MULT_START = 5.00004\<close> it is 5.0 at the launch, not the start
  value; with a negative decay it grows from one day to the next.
\<close>

theorem current_multiplier_counterexample:
  "current_multiplier ((default_config 0)\<lparr>PAYOUT_MULT_MIN := 2.00004\<rparr>) (100 * 86400)
     < PAYOUT_MULT_MIN ((default_config 0)\<lparr>PAYOUT_MULT_MIN := 2.00004\<rparr>)
   \<and> current_multiplier ((default_config 0)\<lparr>PAYOUT_MULT_START := 5.00004\<rparr>) 0
     \<noteq> PAYOUT_MULT_START ((default_config 0)\<lparr>PAYOUT_MULT_START := 5.00004\<rparr>)
   \<and> current_multiplier ((default_config 0)\<lparr>PAYOUT_DECAY_PER_DAY := - 0.05\<rparr>) 0
     < current_multiplier ((default_config 0)\<lparr>PAYOUT_DECAY_PER_DAY := - 0.05\<rparr>) 86400"
  by (simp add: current_multiplier_def days_since_launch_def default_config_def
      py_round_def round_half_even_def Let_def)

section \<open>Reading the tables after an update\<close>

lemma users_update_user [simp]:
  "users (update_user uid f s) = (users s)(uid := map_option f (users s uid))"
  by (cases "users s uid") (auto simp: update_user_def)

lemma deposits_update_user [simp]: "deposits (update_user uid f s) = deposits s"
  by (simp add: update_user_def split: option.splits)

lemma withdrawals_update_user [simp]: "withdrawals (update_user uid f s) = withdrawals s"
  by (simp add: update_user_def split: option.splits)

lemma users_update_deposit [simp]: "users (update_deposit i f s) = users s"
  by (simp add: update_deposit_def)

lemma deposits_update_deposit [simp]:
  "deposits (update_deposit i f s) = map (\<lambda>d. if d_id d = i then f d else d) (deposits s)"
  by (simp add: update_deposit_def)

lemma withdrawals_update_deposit [simp]: "withdrawals (update_deposit i f s) = withdrawals s"
  by (simp add: update_deposit_def)

lemma users_update_withdrawal [simp]: "users (update_withdrawal i f s) = users s"
  by (simp add: update_withdrawal_def)

lemma deposits_update_withdrawal [simp]: "deposits (update_withdrawal i f s) = deposits s"
  by (simp add: update_withdrawal_def)

lemma withdrawals_update_withdrawal [simp]:
  "withdrawals (update_withdrawal i f s) =
     map (\<lambda>w. if w_id w = i then f w else w) (withdrawals s)"
  by (simp add: update_withdrawal_def)

lemmas db_defs =
  db_user_def db_add_balance_def db_set_counted_for_referrer_def db_inc_counted_referrals_def
  db_mark_deposited_def db_approve_deposit_def db_reject_deposit_def db_mark_deposit_paid_def
  db_update_withdrawal_status_def db_update_username_def

lemma find_Some_id: "find (\<lambda>d. d_id d = i) ds = Some d \<Longrightarrow> d \<in> set ds \<and> d_id d = i"
  by (auto simp: find_Some_iff)

lemma find_deposit_status:
  "find (\<lambda>d. d_id d = i) (map (\<lambda>d. if d_id d = i then d\<lparr>d_status := st\<rparr> else d) ds)
     = map_option (\<lambda>d. d\<lparr>d_status := st\<rparr>) (find (\<lambda>d. d_id d = i) ds)"
  by (induction ds) auto

lemma find_deposit_approved:
  "find (\<lambda>d. d_id d = i)
     (map (\<lambda>d. if d_id d = i then d\<lparr>d_status := st, payout_mult := m\<rparr> else d) ds)
     = map_option (\<lambda>d. d\<lparr>d_status := st, payout_mult := m\<rparr>) (find (\<lambda>d. d_id d = i) ds)"
  by (induction ds) auto

lemma find_withdrawal_update:
  "find (\<lambda>w. w_id w = i) (map (\<lambda>w. if w_id w = i then w\<lparr>w_status := st\<rparr> else w) ws)
     = map_option (\<lambda>w. w\<lparr>w_status := st\<rparr>) (find (\<lambda>w. w_id w = i) ws)"
  by (induction ws) auto

lemma find_withdrawal_None_map:
  "find (\<lambda>w. w_id w = i) ws = None \<Longrightarrow> map (\<lambda>w. if w_id w = i then f w else w) ws = ws"
  by (induction ws) (auto split: if_splits)

lemma find_deposit_None_map:
  "find (\<lambda>d. d_id d = i) ds = None \<Longrightarrow> map (\<lambda>d. if d_id d = i then f d else d) ds = ds"
  by (induction ds) (auto split: if_splits)

lemma update_deposit_missing: "db_get_deposit s i = None \<Longrightarrow> update_deposit i f s = s"
  by (simp add: update_deposit_def db_get_deposit_def find_deposit_None_map)

lemma update_withdrawal_missing: "db_get_withdrawal s i = None \<Longrightarrow> update_withdrawal i f s = s"
  by (simp add: update_withdrawal_def db_get_withdrawal_def find_withdrawal_None_map)

lemma db_get_deposit_status:
  "db_get_deposit (update_deposit i (\<lambda>d. d\<lparr>d_status := st\<rparr>) s) i
     = map_option (\<lambda>d. d\<lparr>d_status := st\<rparr>) (db_get_deposit s i)"
  by (simp add: db_get_deposit_def find_deposit_status)

lemma db_get_withdrawal_status:
  "db_get_withdrawal (update_withdrawal i (\<lambda>w. w\<lparr>w_status := st\<rparr>) s) i
     = map_option (\<lambda>w. w\<lparr>w_status := st\<rparr>) (db_get_withdrawal s i)"
  by (simp add: db_get_withdrawal_def find_withdrawal_update)

lemma update_deposit_twice:
  "update_deposit i f (update_deposit i (\<lambda>d. d\<lparr>d_status := st\<rparr>) s)
     = update_deposit i (\<lambda>d. f (d\<lparr>d_status := st\<rparr>)) s"
  by (auto simp: update_deposit_def)

lemma update_withdrawal_twice:
  "update_withdrawal i f (update_withdrawal i (\<lambda>w. w\<lparr>w_status := st\<rparr>) s)
     = update_withdrawal i (\<lambda>w. f (w\<lparr>w_status := st\<rparr>)) s"
  by (auto simp: update_withdrawal_def)

lemma update_user_deposit_commute:
  "update_user u f (update_deposit i g s) = update_deposit i g (update_user u f s)"
  by (simp add: update_user_def update_deposit_def split: option.splits)

lemma update_user_withdrawal_commute:
  "update_user u f (update_withdrawal i g s) = update_withdrawal i g (update_user u f s)"
  by (simp add: update_user_def update_withdrawal_def split: option.splits)

section \<open>Row ids are fresh\<close>

lemma fold_max_ge: "a \<le> fold max xs (a::int)"
  by (induction xs arbitrary: a) (auto intro: order_trans[OF max.cobounded2])

lemma fold_max_mem: "x \<in> set xs \<Longrightarrow> x \<le> fold max xs (a::int)"
proof (induction xs arbitrary: a)
  case Nil
  then show ?case by simp
next
  case (Cons y ys)
  show ?case
  proof (cases "x = y")
    case True
    have "y \<le> max y a" by simp
    also have "\<dots> \<le> fold max ys (max y a)" by (rule fold_max_ge)
    finally show ?thesis using True by simp
  next
    case False
    with Cons show ?thesis by simp
  qed
qed

lemma next_rowid_fresh: "x \<in> set ids \<Longrightarrow> x < next_rowid ids"
  unfolding next_rowid_def using fold_max_mem[of x ids 0] by simp

lemma find_fresh_append:
  "\<forall>x\<in>set xs. \<not> P x \<Longrightarrow> P y \<Longrightarrow> find P (xs @ [y]) = Some y"
  by (induction xs) auto

lemma db_get_withdrawal_inserted:
  "db_get_withdrawal (snd (db_insert_withdrawal now uid amount net addr s))
     (fst (db_insert_withdrawal now uid amount net addr s))
   = Some \<lparr>w_id = next_rowid (map w_id (withdrawals s)), w_user_id = uid,
            w_amount = amount, network = net, address = addr, w_ts = now,
            w_status = PENDING\<rparr>"
proof -
  have "\<forall>x\<in>set (withdrawals s). w_id x \<noteq> next_rowid (map w_id (withdrawals s))"
    using next_rowid_fresh[of _ "map w_id (withdrawals s)"] by fastforce
  then show ?thesis
    unfolding db_get_withdrawal_def db_insert_withdrawal_def Let_def
    by (auto intro!: find_fresh_append)
qed

lemma db_insert_deposit_distinct:
  assumes "distinct (map d_id (deposits s))"
  shows "distinct (map d_id (deposits (snd (db_insert_deposit now uid amount ch tx s))))"
proof -
  have "next_rowid (map d_id (deposits s)) \<notin> set (map d_id (deposits s))"
    using next_rowid_fresh[of "next_rowid (map d_id (deposits s))" "map d_id (deposits s)"]
    by auto
  with assms show ?thesis
    by (simp add: db_insert_deposit_def Let_def)
qed

section \<open>The example ledgers, evaluated\<close>

lemmas eval_defs = cmd_start_def db_create_user_def handle_new_ref_join_def db_defs Let_def
  empty_db_def cfg0_def default_config_def update_user_def cmd_deposit_short_def
  db_insert_deposit_def next_rowid_def DEPOSIT_CHAINS_def

lemma ledger_two_users:
  "users ledger_two 1 = Some \<lparr>username = ''A'', balance = 0, referred_by = None,
     counted_for_referrer = 0, counted_referrals = 0, total_referrals = 1, has_deposited = 0\<rparr>"
  "users ledger_two 2 = Some \<lparr>username = ''B'', balance = 0, referred_by = Some 1,
     counted_for_referrer = 0, counted_referrals = 0, total_referrals = 0, has_deposited = 0\<rparr>"
  unfolding ledger_two_def by (simp_all add: eval_defs)

lemma ledger_joined_users:
  "users ledger_joined 1 = Some \<lparr>username = ''A'', balance = 3, referred_by = None,
     counted_for_referrer = 0, counted_referrals = 3, total_referrals = 4, has_deposited = 0\<rparr>"
  "users ledger_joined 5 = Some \<lparr>username = ''E'', balance = 0, referred_by = Some 1,
     counted_for_referrer = 0, counted_referrals = 0, total_referrals = 0, has_deposited = 0\<rparr>"
  "users ledger_joined 9 = None"
  unfolding ledger_joined_def by (simp_all add: eval_defs)

lemma ledger_F_deposited_rows:
  "deposits ledger_F_deposited =
     [\<lparr>d_id = 1, d_user_id = 6, d_amount = 100, chain = ''TRC20'', txid = ''tx-f'',
       d_ts = 1728000, d_status = PENDING, payout_mult = 0, payout_ts = 0\<rparr>]"
  "users ledger_F_deposited 6 = Some \<lparr>username = ''F'', balance = 0, referred_by = Some 1,
     counted_for_referrer = 0, counted_referrals = 0, total_referrals = 0, has_deposited = 0\<rparr>"
  "users ledger_F_deposited 1 = Some \<lparr>username = ''A'', balance = 3, referred_by = None,
     counted_for_referrer = 0, counted_referrals = 3, total_referrals = 5, has_deposited = 0\<rparr>"
  "withdrawals ledger_F_deposited = []"
  unfolding ledger_F_deposited_def ledger_joined_def by (simp_all add: eval_defs)

lemma ledger_F_deposited_get:
  "db_get_deposit ledger_F_deposited 1 =
     Some \<lparr>d_id = 1, d_user_id = 6, d_amount = 100, chain = ''TRC20'', txid = ''tx-f'',
            d_ts = 1728000, d_status = PENDING, payout_mult = 0, payout_ts = 0\<rparr>"
  by (simp add: db_get_deposit_def ledger_F_deposited_rows)

lemma current_multiplier_day20: "current_multiplier cfg0 (20 * 86400) = 4"
  by (simp add: current_multiplier_def days_since_launch_def cfg0_def default_config_def
      py_round_def round_half_even_def Let_def)


section \<open>The referral engine\<close>

text \<open>
  Claim C5. A join with a missing referrer or a missing new user returns nothing and
  changes nothing. With both rows present: when the referrer has fewer than 3 counted
  referrals and the new user is not counted yet, the result is \<open>counted\<close> with
  \<open>REF_BONUS_JOIN\<close>, the new user is marked counted, the referrer's
  \<open>counted_referrals\<close> grows by one and the referrer's balance by \<open>REF_BONUS_JOIN\<close>,
  and no other user and no deposit or withdrawal changes; otherwise the result is
  \<open>queued\<close> with zero and the ledger is unchanged.
\<close>

theorem handle_new_ref_join_spec:
  "(users s r = None \<or> users s n = None \<longrightarrow> handle_new_ref_join cfg r n s = (None, s))
   \<and> (\<forall>ref newu. users s r = Some ref \<and> users s n = Some newu \<longrightarrow>
        (if counted_referrals ref < 3 \<and> counted_for_referrer newu = 0
         then fst (handle_new_ref_join cfg r n s) = Some (''counted'', REF_BONUS_JOIN cfg)
            \<and> map_option counted_for_referrer
                 (users (snd (handle_new_ref_join cfg r n s)) n) = Some 1
            \<and> map_option counted_referrals (users (snd (handle_new_ref_join cfg r n s)) r)
                = Some (counted_referrals ref + 1)
            \<and> map_option balance (users (snd (handle_new_ref_join cfg r n s)) r)
                = Some (balance ref + REF_BONUS_JOIN cfg)
            \<and> (\<forall>x. x \<noteq> r \<and> x \<noteq> n \<longrightarrow>
                  users (snd (handle_new_ref_join cfg r n s)) x = users s x)
            \<and> deposits (snd (handle_new_ref_join cfg r n s)) = deposits s
            \<and> withdrawals (snd (handle_new_ref_join cfg r n s)) = withdrawals s
         else handle_new_ref_join cfg r n s = (Some (''queued'', 0), s)))"
  by (auto simp: handle_new_ref_join_def db_defs split: option.splits)

text \<open>
  B's join is counted and pays A the join bonus; E's join, when A has three counted
  referrals, is queued; a join of the unknown user 9 does nothing.
\<close>

theorem handle_new_ref_join_spec_witness:
  "fst (handle_new_ref_join cfg0 1 2 ledger_two) = Some (''counted'', 1)
   \<and> map_option counted_for_referrer
        (users (snd (handle_new_ref_join cfg0 1 2 ledger_two)) 2) = Some 1
   \<and> map_option counted_referrals
        (users (snd (handle_new_ref_join cfg0 1 2 ledger_two)) 1) = Some 1
   \<and> map_option balance (users (snd (handle_new_ref_join cfg0 1 2 ledger_two)) 1) = Some 1
   \<and> handle_new_ref_join cfg0 1 5 ledger_joined = (Some (''queued'', 0), ledger_joined)
   \<and> handle_new_ref_join cfg0 1 9 ledger_joined = (None, ledger_joined)"
  using handle_new_ref_join_spec[of ledger_two 1 2 cfg0]
    handle_new_ref_join_spec[of ledger_joined 1 5 cfg0]
    handle_new_ref_join_spec[of ledger_joined 1 9 cfg0]
  by (simp add: ledger_two_users ledger_joined_users cfg0_def default_config_def)



section \<open>Deposit approval\<close>

lemma bonus_of_100_swapped: "py_round (100 * REF_BONUS_DEPOSIT_PERCENT cfg0) 6 = 20"
  by (simp add: cfg0_def default_config_def py_round_def round_half_even_def Let_def)

lemma ledger_F_approved_rows:
  "deposits ledger_F_approved =
     [\<lparr>d_id = 1, d_user_id = 6, d_amount = 100, chain = ''TRC20'', txid = ''tx-f'',
       d_ts = 1728000, d_status = APPROVED, payout_mult = 4, payout_ts = 0\<rparr>]"
  "users ledger_F_approved 6 = Some \<lparr>username = ''F'', balance = 0, referred_by = Some 1,
     counted_for_referrer = 1, counted_referrals = 0, total_referrals = 0, has_deposited = 1\<rparr>"
  "users ledger_F_approved 1 = Some \<lparr>username = ''A'', balance = 23, referred_by = None,
     counted_for_referrer = 0, counted_referrals = 4, total_referrals = 5, has_deposited = 0\<rparr>"
  "withdrawals ledger_F_approved = []"
  unfolding ledger_F_approved_def
  by (simp_all add: ledger_F_deposited_get handle_deposit_approved_def db_defs Let_def
      ledger_F_deposited_rows current_multiplier_day20[simplified] bonus_of_100_swapped)

lemma ledger_F_approved_get:
  "db_get_deposit ledger_F_approved 1 =
     Some \<lparr>d_id = 1, d_user_id = 6, d_amount = 100, chain = ''TRC20'', txid = ''tx-f'',
            d_ts = 1728000, d_status = APPROVED, payout_mult = 4, payout_ts = 0\<rparr>"
  by (simp add: db_get_deposit_def ledger_F_approved_rows)

lemma ledger_self_rows:
  "deposits ledger_self =
     [\<lparr>d_id = 1, d_user_id = 7, d_amount = 100, chain = ''SOL'', txid = ''tx-g'',
       d_ts = 0, d_status = PENDING, payout_mult = 0, payout_ts = 0\<rparr>]"
  "users ledger_self 7 = Some \<lparr>username = ''G'', balance = 1, referred_by = Some 7,
     counted_for_referrer = 1, counted_referrals = 1, total_referrals = 1, has_deposited = 0\<rparr>"
  unfolding ledger_self_def by (simp_all add: eval_defs)

lemma current_multiplier_day30: "current_multiplier cfg0 2592000 = 7 / 2"
  by (simp add: current_multiplier_def days_since_launch_def cfg0_def default_config_def
      py_round_def round_half_even_def Let_def)

text \<open>
  Claim C9, as the code has it. Approving the deposit of an existing user leaves the
  balance of every user but the depositor's referrer as it was; so the depositor's own
  balance is unchanged unless the depositor is the own referrer (\<open>referred_by\<close> is the
  own id). Only that referrer's \<open>counted_referrals\<close> may change, and only the
  depositor's \<open>has_deposited\<close>, which becomes 1, and \<open>counted_for_referrer\<close>. The
  approval changes no name, referrer or total of any user, stamps the rows with the
  deposit's id APPROVED with the current multiplier and leaves the withdrawals alone
  (how much the referrer gains is the subject of C4). The depositor is
  credited later: once the maturation window is over, the approved row is among those
  the sweep selects, and paying it adds \<open>round(amount * multiplier, 6)\<close> to the
  depositor's balance.
\<close>

theorem handle_deposit_approved_frame:
  assumes "db_get_deposit s dep_id = Some dep"
    and "users s (d_user_id dep) = Some u"
  shows "(referred_by u \<noteq> Some (d_user_id dep) \<longrightarrow>
            map_option balance (users (snd (handle_deposit_approved cfg now dep_id s)) (d_user_id dep))
              = Some (balance u))
       \<and> (\<forall>x. referred_by u \<noteq> Some x \<longrightarrow>
            map_option balance (users (snd (handle_deposit_approved cfg now dep_id s)) x)
              = map_option balance (users s x)
            \<and> map_option counted_referrals
                 (users (snd (handle_deposit_approved cfg now dep_id s)) x)
              = map_option counted_referrals (users s x))
       \<and> (\<forall>x. x \<noteq> d_user_id dep \<longrightarrow>
            map_option has_deposited (users (snd (handle_deposit_approved cfg now dep_id s)) x)
              = map_option has_deposited (users s x)
            \<and> map_option counted_for_referrer
                 (users (snd (handle_deposit_approved cfg now dep_id s)) x)
              = map_option counted_for_referrer (users s x))
       \<and> (\<forall>x. map_option username (users (snd (handle_deposit_approved cfg now dep_id s)) x)
              = map_option username (users s x)
            \<and> map_option referred_by (users (snd (handle_deposit_approved cfg now dep_id s)) x)
              = map_option referred_by (users s x)
            \<and> map_option total_referrals (users (snd (handle_deposit_approved cfg now dep_id s)) x)
              = map_option total_referrals (users s x))
       \<and> map_option has_deposited
            (users (snd (handle_deposit_approved cfg now dep_id s)) (d_user_id dep)) = Some 1
       \<and> deposits (snd (handle_deposit_approved cfg now dep_id s))
            = map (\<lambda>d. if d_id d = dep_id
                         then d\<lparr>d_status := APPROVED, payout_mult := current_multiplier cfg now\<rparr>
                         else d) (deposits s)
       \<and> withdrawals (snd (handle_deposit_approved cfg now dep_id s)) = withdrawals s
       \<and> (payout_ts dep = 0 \<and> d_ts dep \<le> now' - PAYOUT_SECONDS cfg \<longrightarrow>
            dep\<lparr>d_status := APPROVED, payout_mult := current_multiplier cfg now\<rparr>
              \<in> set (select_matured cfg now' (snd (handle_deposit_approved cfg now dep_id s)))
            \<and> map_option balance
                 (users (pay_deposit cfg now'
                    (dep\<lparr>d_status := APPROVED, payout_mult := current_multiplier cfg now\<rparr>)
                    (snd (handle_deposit_approved cfg now dep_id s))) (d_user_id dep))
               = map_option (\<lambda>b. b + py_round (d_amount dep *
                    (if current_multiplier cfg now > 0 then current_multiplier cfg now
                     else current_multiplier cfg now')) 6)
                   (map_option balance
                     (users (snd (handle_deposit_approved cfg now dep_id s)) (d_user_id dep))))"
proof -
  let ?s' = "snd (handle_deposit_approved cfg now dep_id s)"
  let ?dep' = "dep\<lparr>d_status := APPROVED, payout_mult := current_multiplier cfg now\<rparr>"
  from assms(1) have mem: "dep \<in> set (deposits s)" and id: "d_id dep = dep_id"
    by (auto simp: db_get_deposit_def dest: find_Some_id)
  have dp: "deposits ?s'
            = map (\<lambda>d. if d_id d = dep_id
                         then d\<lparr>d_status := APPROVED, payout_mult := current_multiplier cfg now\<rparr>
                         else d) (deposits s)"
    using assms
    by (auto simp: handle_deposit_approved_def db_defs Let_def split: option.splits)
  have sel: "?dep' \<in> set (select_matured cfg now' ?s')"
    if "payout_ts dep = 0" "d_ts dep \<le> now' - PAYOUT_SECONDS cfg"
    unfolding select_matured_def Let_def dp using that mem id
    by (auto simp: image_iff intro!: bexI[of _ dep])
  have pay: "map_option balance (users (pay_deposit cfg now' ?dep' ?s') (d_user_id dep))
               = map_option (\<lambda>b. b + py_round (d_amount dep *
                    (if current_multiplier cfg now > 0 then current_multiplier cfg now
                     else current_multiplier cfg now')) 6)
                   (map_option balance (users ?s' (d_user_id dep)))"
    by (simp add: pay_deposit_def payout_amount_def use_mult_def db_defs option.map_comp o_def)
  have rest: "(referred_by u \<noteq> Some (d_user_id dep) \<longrightarrow>
            map_option balance (users ?s' (d_user_id dep)) = Some (balance u))
       \<and> (\<forall>x. referred_by u \<noteq> Some x \<longrightarrow>
            map_option balance (users ?s' x) = map_option balance (users s x)
            \<and> map_option counted_referrals (users ?s' x)
              = map_option counted_referrals (users s x))
       \<and> (\<forall>x. x \<noteq> d_user_id dep \<longrightarrow>
            map_option has_deposited (users ?s' x) = map_option has_deposited (users s x)
            \<and> map_option counted_for_referrer (users ?s' x)
              = map_option counted_for_referrer (users s x))
       \<and> (\<forall>x. map_option username (users ?s' x) = map_option username (users s x)
            \<and> map_option referred_by (users ?s' x) = map_option referred_by (users s x)
            \<and> map_option total_referrals (users ?s' x) = map_option total_referrals (users s x))
       \<and> map_option has_deposited (users ?s' (d_user_id dep)) = Some 1
       \<and> withdrawals ?s' = withdrawals s"
    using assms
    by (auto simp: handle_deposit_approved_def db_defs Let_def option.map_comp o_def
        split: option.splits)
  from dp sel pay rest show ?thesis by blast
qed

text \<open>
  F's deposit is approved on day 20: F's balance stays 0, the deposit is APPROVED at
  multiplier 4, and a day later the sweep selects it and pays F 400.
\<close>

theorem handle_deposit_approved_frame_witness:
  "map_option balance
     (users (snd (handle_deposit_approved cfg0 (20 * 86400) 1 ledger_F_deposited)) 6) = Some 0
   \<and> map_option has_deposited
     (users (snd (handle_deposit_approved cfg0 (20 * 86400) 1 ledger_F_deposited)) 6) = Some 1
   \<and> deposits (snd (handle_deposit_approved cfg0 (20 * 86400) 1 ledger_F_deposited))
       = [\<lparr>d_id = 1, d_user_id = 6, d_amount = 100, chain = ''TRC20'', txid = ''tx-f'',
           d_ts = 1728000, d_status = APPROVED, payout_mult = 4, payout_ts = 0\<rparr>]
   \<and> withdrawals (snd (handle_deposit_approved cfg0 (20 * 86400) 1 ledger_F_deposited)) = []
   \<and> \<lparr>d_id = 1, d_user_id = 6, d_amount = 100, chain = ''TRC20'', txid = ''tx-f'',
        d_ts = 1728000, d_status = APPROVED, payout_mult = 4, payout_ts = 0\<rparr>
       \<in> set (select_matured cfg0 (21 * 86400)
                (snd (handle_deposit_approved cfg0 (20 * 86400) 1 ledger_F_deposited)))
   \<and> map_option balance
        (users (pay_deposit cfg0 (21 * 86400)
           \<lparr>d_id = 1, d_user_id = 6, d_amount = 100, chain = ''TRC20'', txid = ''tx-f'',
             d_ts = 1728000, d_status = APPROVED, payout_mult = 4, payout_ts = 0\<rparr>
           (snd (handle_deposit_approved cfg0 (20 * 86400) 1 ledger_F_deposited))) 6)
       = Some 400"
proof -
  let ?dep = "\<lparr>d_id = 1, d_user_id = 6, d_amount = 100, chain = ''TRC20'', txid = ''tx-f'',
               d_ts = 1728000, d_status = PENDING, payout_mult = 0, payout_ts = 0\<rparr>"
  have u: "users ledger_F_deposited (d_user_id ?dep) =
             Some \<lparr>username = ''F'', balance = 0, referred_by = Some 1,
                    counted_for_referrer = 0, counted_referrals = 0, total_referrals = 0,
                    has_deposited = 0\<rparr>"
    by (simp add: ledger_F_deposited_rows)
  have r: "py_round 400 6 = 400"
    by (simp add: py_round_def round_half_even_def)
  have p: "PAYOUT_SECONDS cfg0 = 86400"
    by (simp add: cfg0_def default_config_def)
  show ?thesis
    using handle_deposit_approved_frame
            [OF ledger_F_deposited_get u, of cfg0 "20 * 86400" "21 * 86400"]
      current_multiplier_day20 r p
    by (simp add: ledger_F_deposited_rows)
qed

text \<open>
  Claim C9 as the spec words it fails when a user is the own referrer: G started the
  bot with the own id as referral code, and the approval of G's deposit of 100 raises
  G's balance from 1 to 21.
\<close>

theorem handle_deposit_approved_frame_counterexample:
  "map_option d_user_id (db_get_deposit ledger_self 1) = Some 7
   \<and> map_option balance (users ledger_self 7) = Some 1
   \<and> map_option balance (users (snd (handle_deposit_approved cfg0 0 1 ledger_self)) 7) = Some 21"
  by (simp add: db_get_deposit_def ledger_self_rows handle_deposit_approved_def db_defs Let_def
      bonus_of_100_swapped)

section \<open>The admin callbacks do not look at the status\<close>

lemma approve_deposit_status:
  "handle_deposit_approved cfg now i (update_deposit i (\<lambda>d. d\<lparr>d_status := st\<rparr>) s)
     = handle_deposit_approved cfg now i s"
proof (cases "db_get_deposit s i")
  case None
  then show ?thesis by (simp add: update_deposit_missing)
next
  case (Some dep)
  then show ?thesis
    by (simp add: handle_deposit_approved_def db_get_deposit_status db_defs Let_def
        update_deposit_twice update_user_deposit_commute o_def
        split: option.splits)
qed

lemma db_get_deposit_after_approval:
  "db_get_deposit (snd (handle_deposit_approved cfg now i s)) i
     = map_option (\<lambda>d. d\<lparr>d_status := APPROVED, payout_mult := current_multiplier cfg now\<rparr>)
         (db_get_deposit s i)"
  by (cases "db_get_deposit s i")
     (auto simp: handle_deposit_approved_def db_defs Let_def db_get_deposit_def
        find_deposit_approved split: option.splits)

text \<open>
  Claim C1, as the code has it. The admin operations never read the status of the
  record they address: the reply and the resulting ledger are the same whatever that
  status is (a failed withdrawal approval returns the ledger it was given). Only a
  missing record is refused, with the ledger unchanged. On an existing deposit of any
  status, an approval succeeds and stamps the row APPROVED with the current
  multiplier, and a rejection succeeds and sets REJECTED; on an existing withdrawal of
  any status a decline succeeds and sets REJECTED.
\<close>

theorem cb_admin_ignores_status:
  "cb_admin cfg now (approve_deposit i) (update_deposit i (\<lambda>d. d\<lparr>d_status := st\<rparr>) s)
     = cb_admin cfg now (approve_deposit i) s
   \<and> cb_admin cfg now (reject_deposit i) (update_deposit i (\<lambda>d. d\<lparr>d_status := st\<rparr>) s)
     = cb_admin cfg now (reject_deposit i) s
   \<and> cb_admin cfg now (decline_withdraw i) (update_withdrawal i (\<lambda>w. w\<lparr>w_status := st\<rparr>) s)
     = cb_admin cfg now (decline_withdraw i) s
   \<and> fst (cb_admin cfg now (approve_withdraw i)
            (update_withdrawal i (\<lambda>w. w\<lparr>w_status := st\<rparr>) s))
     = fst (cb_admin cfg now (approve_withdraw i) s)
   \<and> snd (cb_admin cfg now (approve_withdraw i)
            (update_withdrawal i (\<lambda>w. w\<lparr>w_status := st\<rparr>) s))
     = (if isl (fst (cb_admin cfg now (approve_withdraw i) s))
        then update_withdrawal i (\<lambda>w. w\<lparr>w_status := st\<rparr>) s
        else snd (cb_admin cfg now (approve_withdraw i) s))
   \<and> (case db_get_deposit s i of
         None \<Rightarrow> cb_admin cfg now (approve_deposit i) s = (Inl DepositNotFound, s)
               \<and> cb_admin cfg now (reject_deposit i) s = (Inl DepositNotFound, s)
       | Some dep \<Rightarrow>
           fst (cb_admin cfg now (approve_deposit i) s)
             = Inr (DepositApproved (fst (handle_deposit_approved cfg now i s)))
           \<and> db_get_deposit (snd (cb_admin cfg now (approve_deposit i) s)) i
             = Some (dep\<lparr>d_status := APPROVED, payout_mult := current_multiplier cfg now\<rparr>)
           \<and> fst (cb_admin cfg now (reject_deposit i) s) = Inr DepositRejected
           \<and> db_get_deposit (snd (cb_admin cfg now (reject_deposit i) s)) i
             = Some (dep\<lparr>d_status := REJECTED\<rparr>))
   \<and> (case db_get_withdrawal s i of
         None \<Rightarrow> cb_admin cfg now (approve_withdraw i) s = (Inl RequestNotFound, s)
               \<and> cb_admin cfg now (decline_withdraw i) s = (Inl RequestNotFound, s)
       | Some w \<Rightarrow>
           fst (cb_admin cfg now (decline_withdraw i) s) = Inr WithdrawalDeclined
           \<and> db_get_withdrawal (snd (cb_admin cfg now (decline_withdraw i) s)) i
             = Some (w\<lparr>w_status := REJECTED\<rparr>))"
proof -
  have a: "cb_admin cfg now (approve_deposit i) (update_deposit i (\<lambda>d. d\<lparr>d_status := st\<rparr>) s)
     = cb_admin cfg now (approve_deposit i) s"
    by (cases "db_get_deposit s i")
       (simp_all add: update_deposit_missing db_get_deposit_status approve_deposit_status)
  have b: "cb_admin cfg now (reject_deposit i) (update_deposit i (\<lambda>d. d\<lparr>d_status := st\<rparr>) s)
     = cb_admin cfg now (reject_deposit i) s"
    by (cases "db_get_deposit s i")
       (simp_all add: update_deposit_missing db_get_deposit_status db_defs
          update_deposit_twice)
  have d: "cb_admin cfg now (decline_withdraw i) (update_withdrawal i (\<lambda>w. w\<lparr>w_status := st\<rparr>) s)
     = cb_admin cfg now (decline_withdraw i) s"
    by (cases "db_get_withdrawal s i")
       (simp_all add: update_withdrawal_missing db_get_withdrawal_status db_defs
          update_withdrawal_twice)
  have c: "fst (cb_admin cfg now (approve_withdraw i)
            (update_withdrawal i (\<lambda>w. w\<lparr>w_status := st\<rparr>) s))
     = fst (cb_admin cfg now (approve_withdraw i) s)
   \<and> snd (cb_admin cfg now (approve_withdraw i)
            (update_withdrawal i (\<lambda>w. w\<lparr>w_status := st\<rparr>) s))
     = (if isl (fst (cb_admin cfg now (approve_withdraw i) s))
        then update_withdrawal i (\<lambda>w. w\<lparr>w_status := st\<rparr>) s
        else snd (cb_admin cfg now (approve_withdraw i) s))"
    by (cases "db_get_withdrawal s i")
       (simp_all add: update_withdrawal_missing db_get_withdrawal_status db_defs
          update_withdrawal_twice update_user_withdrawal_commute split: option.splits)
  have e: "case db_get_deposit s i of
         None \<Rightarrow> cb_admin cfg now (approve_deposit i) s = (Inl DepositNotFound, s)
               \<and> cb_admin cfg now (reject_deposit i) s = (Inl DepositNotFound, s)
       | Some dep \<Rightarrow>
           fst (cb_admin cfg now (approve_deposit i) s)
             = Inr (DepositApproved (fst (handle_deposit_approved cfg now i s)))
           \<and> db_get_deposit (snd (cb_admin cfg now (approve_deposit i) s)) i
             = Some (dep\<lparr>d_status := APPROVED, payout_mult := current_multiplier cfg now\<rparr>)
           \<and> fst (cb_admin cfg now (reject_deposit i) s) = Inr DepositRejected
           \<and> db_get_deposit (snd (cb_admin cfg now (reject_deposit i) s)) i
             = Some (dep\<lparr>d_status := REJECTED\<rparr>)"
    using db_get_deposit_after_approval[of cfg now i s]
    by (cases "db_get_deposit s i")
       (auto simp: split_beta db_reject_deposit_def db_get_deposit_def find_deposit_status)
  have f: "case db_get_withdrawal s i of
         None \<Rightarrow> cb_admin cfg now (approve_withdraw i) s = (Inl RequestNotFound, s)
               \<and> cb_admin cfg now (decline_withdraw i) s = (Inl RequestNotFound, s)
       | Some w \<Rightarrow>
           fst (cb_admin cfg now (decline_withdraw i) s) = Inr WithdrawalDeclined
           \<and> db_get_withdrawal (snd (cb_admin cfg now (decline_withdraw i) s)) i
             = Some (w\<lparr>w_status := REJECTED\<rparr>)"
    by (cases "db_get_withdrawal s i")
       (auto simp: db_update_withdrawal_status_def db_get_withdrawal_def find_withdrawal_update)
  from a b c d e f show ?thesis by blast
qed

lemma ledger_F_approved_pending:
  "update_deposit 1 (\<lambda>d. d\<lparr>d_status := PENDING\<rparr>) ledger_F_approved
     = ledger_F_approved\<lparr>deposits :=
         [\<lparr>d_id = 1, d_user_id = 6, d_amount = 100, chain = ''TRC20'', txid = ''tx-f'',
           d_ts = 1728000, d_status = PENDING, payout_mult = 4, payout_ts = 0\<rparr>]\<rparr>"
  by (simp add: update_deposit_def ledger_F_approved_rows)

text \<open>
  The approved deposit of F: approving it on day 30 does the same as approving it after
  its status is put back to PENDING, and stamps the multiplier of day 30; a request
  that does not exist is refused.
\<close>

theorem cb_admin_ignores_status_witness:
  "cb_admin cfg0 (30 * 86400) (approve_deposit 1)
     (ledger_F_approved\<lparr>deposits :=
         [\<lparr>d_id = 1, d_user_id = 6, d_amount = 100, chain = ''TRC20'', txid = ''tx-f'',
           d_ts = 1728000, d_status = PENDING, payout_mult = 4, payout_ts = 0\<rparr>]\<rparr>)
     = cb_admin cfg0 (30 * 86400) (approve_deposit 1) ledger_F_approved
   \<and> db_get_deposit (snd (cb_admin cfg0 (30 * 86400) (approve_deposit 1) ledger_F_approved)) 1
     = Some \<lparr>d_id = 1, d_user_id = 6, d_amount = 100, chain = ''TRC20'', txid = ''tx-f'',
              d_ts = 1728000, d_status = APPROVED, payout_mult = 7 / 2, payout_ts = 0\<rparr>
   \<and> cb_admin cfg0 (30 * 86400) (approve_withdraw 1) ledger_F_approved
     = (Inl RequestNotFound, ledger_F_approved)"
proof -
  have w: "db_get_withdrawal ledger_F_approved 1 = None"
    by (simp add: db_get_withdrawal_def ledger_F_approved_rows)
  show ?thesis
    using cb_admin_ignores_status[of cfg0 "30 * 86400" 1 PENDING ledger_F_approved]
    by (simp add: ledger_F_approved_pending ledger_F_approved_get w current_multiplier_day30)
qed

section \<open>Withdrawals\<close>

lemma ledger_rich_user:
  "users ledger_rich 1 = Some \<lparr>username = ''A'', balance = 50, referred_by = None,
     counted_for_referrer = 0, counted_referrals = 5, total_referrals = 5, has_deposited = 1\<rparr>"
  "users ledger_rich 2 = None"
  "withdrawals ledger_rich = []" "deposits ledger_rich = []"
  by (simp_all add: ledger_rich_def)

lemma cfg0_withdraw: "MIN_WITHDRAW cfg0 = 45" "MIN_COUNTED_REFERRALS_FOR_WITHDRAW cfg0 = 5"
  by (simp_all add: cfg0_def default_config_def)

lemma ledger_requested_rows:
  "withdrawals (ledger_requested amount) =
     (if amount > 50 then []
      else [\<lparr>w_id = 1, w_user_id = 1, w_amount = amount, network = ''TRC20'',
              address = ''T-addr'', w_ts = 100, w_status = PENDING\<rparr>])"
  "users (ledger_requested amount) = users ledger_rich"
  unfolding ledger_requested_def
  by (simp_all add: withdraw_request_def cmd_withdraw_start_def withdraw_amount_def
      withdraw_address_def db_insert_withdrawal_def db_user_def Let_def ledger_rich_user
      cfg0_withdraw next_rowid_def)

lemma ledger_paid_rows:
  "withdrawals ledger_paid =
     [\<lparr>w_id = 1, w_user_id = 1, w_amount = 20, network = ''TRC20'',
       address = ''T-addr'', w_ts = 100, w_status = PAID\<rparr>]"
  "users ledger_paid 1 = Some \<lparr>username = ''A'', balance = 30, referred_by = None,
     counted_for_referrer = 0, counted_referrals = 5, total_referrals = 5, has_deposited = 1\<rparr>"
  unfolding ledger_paid_def
  by (simp_all add: db_get_withdrawal_def ledger_requested_rows ledger_rich_user db_defs)

text \<open>
  Claim C7. For a registered user, a withdrawal request fails exactly when one of the
  four gates fails on the ledger as it is at the request: no approved deposit
  (\<open>has_deposited = 0\<close>), \<open>balance < MIN_WITHDRAW\<close>,
  \<open>counted_referrals < MIN_COUNTED_REFERRALS_FOR_WITHDRAW\<close>, or \<open>amount > balance\<close>. The
  gates are tried in this order, and a failed request returns the ledger unchanged.
  When all four pass, the ledger is the old one with one more withdrawal, PENDING, for
  that user and amount; the balance is not debited. A user without a row is told to
  register, and nothing changes.
\<close>

theorem withdraw_request_spec:
  "case users s uid of
     None \<Rightarrow> withdraw_request cfg now uid amount net addr s = (Inl NotRegistered, s)
   | Some u \<Rightarrow>
       (isl (fst (withdraw_request cfg now uid amount net addr s)) \<longleftrightarrow>
          has_deposited u = 0 \<or> balance u < MIN_WITHDRAW cfg
          \<or> counted_referrals u < MIN_COUNTED_REFERRALS_FOR_WITHDRAW cfg
          \<or> amount > balance u)
       \<and> withdraw_request cfg now uid amount net addr s =
           (if has_deposited u = 0 then (Inl NotEligible, s)
            else if balance u < MIN_WITHDRAW cfg then (Inl BelowMinimum, s)
            else if counted_referrals u < MIN_COUNTED_REFERRALS_FOR_WITHDRAW cfg
            then (Inl InsufficientReferrals, s)
            else if amount > balance u then (Inl InsufficientBalance, s)
            else (Inr (next_rowid (map w_id (withdrawals s))),
                  s\<lparr>withdrawals := withdrawals s @
                      [\<lparr>w_id = next_rowid (map w_id (withdrawals s)), w_user_id = uid,
                        w_amount = amount, network = net, address = addr, w_ts = now,
                        w_status = PENDING\<rparr>]\<rparr>))"
  by (auto simp: withdraw_request_def cmd_withdraw_start_def withdraw_amount_def
      withdraw_address_def db_insert_withdrawal_def db_user_def Let_def split: option.splits)

text \<open>
  The scenario of the specification: with balance 50, five counted referrals and an
  approved deposit, a request for 50 becomes the PENDING withdrawal 1; a request for 60
  fails on the last gate; the unknown user 2 is not registered.
\<close>

theorem withdraw_request_spec_witness:
  "withdraw_request cfg0 100 1 50 ''TRC20'' ''T-addr'' ledger_rich
     = (Inr 1, ledger_rich\<lparr>withdrawals :=
          [\<lparr>w_id = 1, w_user_id = 1, w_amount = 50, network = ''TRC20'',
            address = ''T-addr'', w_ts = 100, w_status = PENDING\<rparr>]\<rparr>)
   \<and> withdraw_request cfg0 100 1 60 ''TRC20'' ''T-addr'' ledger_rich
     = (Inl InsufficientBalance, ledger_rich)
   \<and> withdraw_request cfg0 100 2 60 ''TRC20'' ''T-addr'' ledger_rich
     = (Inl NotRegistered, ledger_rich)"
  using withdraw_request_spec[where s = ledger_rich and uid = 1 and cfg = cfg0 and now = 100
            and amount = 50 and net = "''TRC20''" and addr = "''T-addr''"]
    withdraw_request_spec[where s = ledger_rich and uid = 1 and cfg = cfg0 and now = 100
            and amount = 60 and net = "''TRC20''" and addr = "''T-addr''"]
    withdraw_request_spec[where s = ledger_rich and uid = 2 and cfg = cfg0 and now = 100
            and amount = 60 and net = "''TRC20''" and addr = "''T-addr''"]
  by (simp add: ledger_rich_user cfg0_withdraw next_rowid_def)



text \<open>
  Claim C10. No handler of the withdraw conversation tests the sign of the amount. A
  user who passes the eligibility, minimum-balance and referral gates (with a minimum
  that is not negative) and asks for a negative amount gets a PENDING withdrawal with
  that amount; its approval passes the balance test and the debit
  \<open>balance - amount\<close> raises the balance.
\<close>

theorem negative_withdrawal_credits:
  assumes "users s uid = Some u"
    and "has_deposited u \<noteq> 0"
    and "MIN_WITHDRAW cfg \<le> balance u"
    and "MIN_COUNTED_REFERRALS_FOR_WITHDRAW cfg \<le> counted_referrals u"
    and "0 \<le> MIN_WITHDRAW cfg"
    and "amount < 0"
  shows "\<exists>rid s1.
           withdraw_request cfg now uid amount net addr s = (Inr rid, s1)
         \<and> db_get_withdrawal s1 rid
             = Some \<lparr>w_id = rid, w_user_id = uid, w_amount = amount, network = net,
                     address = addr, w_ts = now, w_status = PENDING\<rparr>
         \<and> users s1 = users s
         \<and> fst (cb_admin cfg now' (approve_withdraw rid) s1) = Inr WithdrawalPaid
         \<and> map_option balance (users (snd (cb_admin cfg now' (approve_withdraw rid) s1)) uid)
             = Some (balance u - amount)
         \<and> balance u < balance u - amount"
proof -
  let ?rid = "next_rowid (map w_id (withdrawals s))"
  let ?s1 = "snd (db_insert_withdrawal now uid amount net addr s)"
  have req: "withdraw_request cfg now uid amount net addr s = (Inr ?rid, ?s1)"
    using assms
    by (auto simp: withdraw_request_def cmd_withdraw_start_def withdraw_amount_def
        withdraw_address_def db_insert_withdrawal_def db_user_def Let_def)
  have get: "db_get_withdrawal ?s1 ?rid
             = Some \<lparr>w_id = ?rid, w_user_id = uid, w_amount = amount, network = net,
                     address = addr, w_ts = now, w_status = PENDING\<rparr>"
    using db_get_withdrawal_inserted[of now uid amount net addr s]
    by (simp add: db_insert_withdrawal_def Let_def)
  have us: "users ?s1 = users s"
    by (simp add: db_insert_withdrawal_def Let_def)
  have appr: "fst (cb_admin cfg now' (approve_withdraw ?rid) ?s1) = Inr WithdrawalPaid
      \<and> map_option balance (users (snd (cb_admin cfg now' (approve_withdraw ?rid) ?s1)) uid)
             = Some (balance u - amount)"
    using assms get us by (auto simp: db_defs)
  from req get us appr assms(6) show ?thesis by auto
qed

text \<open>A asks for -10 with a balance of 50; after the approval the balance is 60.\<close>

theorem negative_withdrawal_credits_witness:
  "withdraw_request cfg0 100 1 (- 10) ''TRC20'' ''T-addr'' ledger_rich
     = (Inr 1, ledger_requested (- 10))
   \<and> db_get_withdrawal (ledger_requested (- 10)) 1
     = Some \<lparr>w_id = 1, w_user_id = 1, w_amount = - 10, network = ''TRC20'',
              address = ''T-addr'', w_ts = 100, w_status = PENDING\<rparr>
   \<and> fst (cb_admin cfg0 200 (approve_withdraw 1) (ledger_requested (- 10))) = Inr WithdrawalPaid
   \<and> map_option balance
        (users (snd (cb_admin cfg0 200 (approve_withdraw 1) (ledger_requested (- 10)))) 1)
     = Some 60"
proof -
  have h: "has_deposited \<lparr>username = ''A'', balance = 50, referred_by = None,
     counted_for_referrer = 0, counted_referrals = 5, total_referrals = 5, has_deposited = 1\<rparr> \<noteq> 0"
    "MIN_WITHDRAW cfg0 \<le> balance \<lparr>username = ''A'', balance = 50, referred_by = None,
     counted_for_referrer = 0, counted_referrals = 5, total_referrals = 5, has_deposited = 1\<rparr>"
    "MIN_COUNTED_REFERRALS_FOR_WITHDRAW cfg0 \<le> counted_referrals \<lparr>username = ''A'', balance = 50, referred_by = None,
     counted_for_referrer = 0, counted_referrals = 5, total_referrals = 5, has_deposited = 1\<rparr>"
    "0 \<le> MIN_WITHDRAW cfg0" "(- 10 :: real) < 0"
    by (simp_all add: cfg0_withdraw)
  from negative_withdrawal_credits[OF ledger_rich_user(1) h, of 100 "''TRC20''" "''T-addr''" 200]
  obtain rid s1 where
    r: "withdraw_request cfg0 100 1 (- 10) ''TRC20'' ''T-addr'' ledger_rich = (Inr rid, s1)"
    and g: "db_get_withdrawal s1 rid
             = Some \<lparr>w_id = rid, w_user_id = 1, w_amount = - 10, network = ''TRC20'',
                     address = ''T-addr'', w_ts = 100, w_status = PENDING\<rparr>"
    and a: "fst (cb_admin cfg0 200 (approve_withdraw rid) s1) = Inr WithdrawalPaid"
    and b: "map_option balance (users (snd (cb_admin cfg0 200 (approve_withdraw rid) s1)) 1)
             = Some (50 - (- 10))"
    by auto
  have s1: "s1 = ledger_requested (- 10)"
    using r by (simp add: ledger_requested_def)
  have "rid = 1"
    using r
    by (simp add: withdraw_request_def cmd_withdraw_start_def withdraw_amount_def
      withdraw_address_def db_insert_withdrawal_def db_user_def Let_def ledger_rich_user
      cfg0_withdraw next_rowid_def)
  with r g a b s1 show ?thesis by simp
qed

text \<open>
  Claim C1 as the spec words it fails. F's deposit is APPROVED, and a second approval,
  on day 30, is not refused: it pays A the bonus of 20 a second time (from 23 to 43)
  and replaces the stored multiplier 4 by 3.5. A's withdrawal of 20 is PAID, and a
  second approval is not refused either: it debits 20 again (from 30 to 10).
\<close>

theorem cb_admin_counterexample:
  "map_option d_status (db_get_deposit ledger_F_approved 1) = Some APPROVED
   \<and> map_option balance (users ledger_F_approved 1) = Some 23
   \<and> fst (cb_admin cfg0 (30 * 86400) (approve_deposit 1) ledger_F_approved)
       = Inr (DepositApproved (Some (''approved_ref_bonus'', 20, 3.5)))
   \<and> map_option balance
        (users (snd (cb_admin cfg0 (30 * 86400) (approve_deposit 1) ledger_F_approved)) 1)
       = Some 43
   \<and> map_option payout_mult
        (db_get_deposit (snd (cb_admin cfg0 (30 * 86400) (approve_deposit 1) ledger_F_approved)) 1)
       = Some 3.5
   \<and> map_option w_status (db_get_withdrawal ledger_paid 1) = Some PAID
   \<and> map_option balance (users ledger_paid 1) = Some 30
   \<and> fst (cb_admin cfg0 300 (approve_withdraw 1) ledger_paid) = Inr WithdrawalPaid
   \<and> map_option balance (users (snd (cb_admin cfg0 300 (approve_withdraw 1) ledger_paid)) 1)
       = Some 10"
  by (simp add: ledger_F_approved_get ledger_F_approved_rows handle_deposit_approved_def
      db_defs Let_def bonus_of_100_swapped current_multiplier_day30 db_get_deposit_def
      db_get_withdrawal_def ledger_paid_rows)

section \<open>The maturation sweep\<close>










section \<open>A referral is counted once\<close>

lemma counted_step: "counted s uid \<Longrightarrow> counted (step cfg e s) uid"
  by (cases e)
     (auto simp: counted_def handle_new_ref_join_def handle_deposit_approved_def db_defs Let_def
       split: option.splits if_splits)

lemma trace_Cons: "\<exists>t. trace cfg s es = s # t"
  by (cases es) auto

lemma flips_counted: "counted s uid \<Longrightarrow> flips uid (trace cfg s es) = 0"
proof (induction es arbitrary: s)
  case Nil
  then show ?case by simp
next
  case (Cons e es)
  obtain t where t: "trace cfg (step cfg e s) es = step cfg e s # t"
    using trace_Cons by blast
  from Cons.prems have c: "counted (step cfg e s) uid" by (rule counted_step)
  from Cons.IH[OF c] t Cons.prems show ?case by simp
qed

lemma flips_le_1: "flips uid (trace cfg s es) \<le> 1"
proof (induction es arbitrary: s)
  case Nil
  then show ?case by simp
next
  case (Cons e es)
  obtain t where t: "trace cfg (step cfg e s) es = step cfg e s # t"
    using trace_Cons by blast
  show ?case
  proof (cases "\<not> counted s uid \<and> counted (step cfg e s) uid")
    case True
    then have "flips uid (trace cfg (step cfg e s) es) = 0" by (simp add: flips_counted)
    with t True show ?thesis by simp
  next
    case False
    with Cons.IH[of "step cfg e s"] t show ?thesis by auto
  qed
qed

lemma step_frame:
  "referrer_of s e \<noteq> Some x \<Longrightarrow> counted_referrals_of (step cfg e s) x = counted_referrals_of s x"
  by (cases e)
     (auto simp: counted_referrals_of_def handle_new_ref_join_def handle_deposit_approved_def
       db_defs Let_def split: option.splits if_splits)

lemma step_increment:
  assumes "subject s e = Some uid" and "referrer_of s e = Some r"
  shows "0 \<le> counted_referrals_of (step cfg e s) r - counted_referrals_of s r
       \<and> counted_referrals_of (step cfg e s) r - counted_referrals_of s r
           \<le> (if \<not> counted s uid \<and> counted (step cfg e s) uid then 1 else 0)"
  using assms
  by (cases e)
     (auto simp: counted_def counted_referrals_of_def handle_new_ref_join_def
       handle_deposit_approved_def db_defs Let_def split: option.splits if_splits)

lemma increments_bounds:
  "0 \<le> increments cfg uid s es \<and> increments cfg uid s es \<le> int (flips uid (trace cfg s es))"
proof (induction es arbitrary: s)
  case Nil
  then show ?case by simp
next
  case (Cons e es)
  obtain t where t: "trace cfg (step cfg e s) es = step cfg e s # t"
    using trace_Cons by blast
  note IH = Cons.IH[of "step cfg e s"]
  show ?case
  proof (cases "subject s e = Some uid")
    case False
    with IH t show ?thesis by auto
  next
    case True
    show ?thesis
    proof (cases "referrer_of s e")
      case None
      with True IH t show ?thesis by auto
    next
      case (Some r)
      from step_increment[OF True Some, of cfg] True Some IH t show ?thesis
        by (auto split: if_splits)
    qed
  qed
qed

text \<open>
  Claim C8. Along every sequence of joins and deposit approvals, from every ledger, the
  \<open>counted_for_referrer\<close> flag of a user goes from false to true at most once, and
  once true it stays true. The events made for that user raise the \<open>counted_referrals\<close>
  of their referrer by at most one in total, and never by more than the number of times
  the flag was set; an event changes the counter of nobody but the referrer it names.
\<close>

theorem counted_once:
  "flips uid (trace cfg s es) \<le> 1
   \<and> 0 \<le> increments cfg uid s es
   \<and> increments cfg uid s es \<le> int (flips uid (trace cfg s es))
   \<and> increments cfg uid s es \<le> 1
   \<and> (\<forall>e t x. referrer_of t e \<noteq> Some x \<longrightarrow>
         counted_referrals_of (step cfg e t) x = counted_referrals_of t x)
   \<and> (\<forall>e t. counted t uid \<longrightarrow> counted (step cfg e t) uid)"
  using flips_le_1[of uid cfg s es] increments_bounds[of cfg uid s es]
  by (auto simp: step_frame counted_step)

lemma step_join_F: "step cfg0 (JoinEv 1 6) ledger_F_deposited = ledger_F_deposited"
  by (simp add: handle_new_ref_join_def db_user_def ledger_F_deposited_rows)

lemma step_approve_F: "step cfg0 (ApproveEv 1728000 1) ledger_F_deposited = ledger_F_approved"
  by (simp add: ledger_F_approved_def ledger_F_deposited_get split_beta)

lemma counted_referrals_of_A:
  "counted_referrals_of ledger_F_deposited 1 = 3"
  "counted_referrals_of ledger_F_approved 1 = 4"
  "counted_referrals_of (step cfg0 (ApproveEv 2592000 1) ledger_F_approved) 1 = 4"
  by (simp_all add: counted_referrals_of_def handle_deposit_approved_def ledger_F_approved_get
      db_defs Let_def ledger_F_approved_rows ledger_F_deposited_rows)

text \<open>
  F joins (queued, A has three counted referrals), F's deposit is approved on day 20
  and approved again on day 30: F's flag is set once, by the first approval, and A's
  counter is raised once for F.
\<close>

theorem counted_once_witness:
  "flips 6 (trace cfg0 ledger_F_deposited
              [JoinEv 1 6, ApproveEv 1728000 1, ApproveEv 2592000 1]) = 1
   \<and> increments cfg0 6 ledger_F_deposited
        [JoinEv 1 6, ApproveEv 1728000 1, ApproveEv 2592000 1] = 1
   \<and> counted_referrals_of (step cfg0 (ApproveEv 1728000 1) ledger_F_deposited) 6
       = counted_referrals_of ledger_F_deposited 6
   \<and> counted (step cfg0 (ApproveEv 2592000 1) ledger_F_approved) 6"
proof -
  let ?es = "[JoinEv 1 6, ApproveEv 1728000 1, ApproveEv 2592000 1]"
  note t = counted_once[of 6 cfg0 ledger_F_deposited ?es]
  have c0: "\<not> counted ledger_F_deposited 6" and c1: "counted ledger_F_approved 6"
    by (simp_all add: counted_def ledger_F_deposited_rows ledger_F_approved_rows)
  have r: "referrer_of ledger_F_deposited (ApproveEv 1728000 1) \<noteq> Some 6"
    by (simp add: ledger_F_deposited_get ledger_F_deposited_rows)
  from t r have fr: "counted_referrals_of (step cfg0 (ApproveEv 1728000 1) ledger_F_deposited) 6
       = counted_referrals_of ledger_F_deposited 6"
    by blast
  from t c1 have c2: "counted (step cfg0 (ApproveEv 2592000 1) ledger_F_approved) 6"
    by blast
  have inc: "increments cfg0 6 ledger_F_deposited ?es = 1"
    by (simp del: step.simps add: step_join_F step_approve_F ledger_F_deposited_get
        ledger_F_approved_get ledger_F_deposited_rows ledger_F_approved_rows
        counted_referrals_of_A)
  from t have "increments cfg0 6 ledger_F_deposited ?es \<le> int (flips 6 (trace cfg0 ledger_F_deposited ?es))"
    and "flips 6 (trace cfg0 ledger_F_deposited ?es) \<le> 1"
    by blast+
  with inc have fl: "flips 6 (trace cfg0 ledger_F_deposited ?es) = 1"
    by linarith
  from fl inc fr c2 show ?thesis by blast
qed

end
